theory Spec2Isabelle
  imports Main
begin

section \<open>JavaScript values\<close>

text \<open>
  The components are TypeScript compiled to JavaScript, and several of the checks below
  rely on JavaScript truthiness. A value of type \<open>string | undefined\<close> (or \<open>| null\<close>) is a
  \<open>string option\<close>, with \<open>None\<close> for undefined and null; it is truthy when it is a non-empty
  string. A \<open>number | undefined\<close> is an \<open>int option\<close>.
\<close>

definition truthy :: "string option \<Rightarrow> bool" where
  "truthy v = (case v of None \<Rightarrow> False | Some s \<Rightarrow> s \<noteq> [])"

text \<open>\<open>a || b\<close> on strings with a string default: the first operand when truthy.\<close>

definition or_else :: "string option \<Rightarrow> string \<Rightarrow> string" where
  "or_else v d = (case v of None \<Rightarrow> d | Some s \<Rightarrow> if s \<noteq> [] then s else d)"

text \<open>\<open>xs[i]\<close>: reading an array outside its bounds gives undefined.\<close>

definition js_index :: "'a list \<Rightarrow> int \<Rightarrow> 'a option" where
  "js_index xs i = (if 0 \<le> i \<and> i < int (length xs) then Some (xs ! nat i) else None)"

text \<open>\<open>s.split(sep)\<close> for a one-character separator: always at least one part.\<close>

fun split :: "char \<Rightarrow> string \<Rightarrow> string list" where
  "split sep [] = [[]]"
| "split sep (c # cs) =
     (if c = sep then [] # split sep cs
      else (case split sep cs of [] \<Rightarrow> [[c]] | p # ps \<Rightarrow> (c # p) # ps))"

text \<open>
  \<open>s.replace(pat, rep)\<close> with a string pattern: only the first occurrence is replaced.
\<close>

fun replace :: "string \<Rightarrow> string \<Rightarrow> string \<Rightarrow> string" where
  "replace pat rep [] = (if pat = [] then rep else [])"
| "replace pat rep (c # cs) =
     (if take (length pat) (c # cs) = pat then rep @ drop (length pat) (c # cs)
      else c # replace pat rep cs)"

section \<open>api/swapi.ts: the catalog client\<close>

text \<open>
  \<open>ResourceType\<close> is a union of six string literals; at run time a resource type is a
  string, and nothing in the client checks it.
\<close>

type_synonym ResourceType = string

record ResourceListItem =
  li_uid :: string
  li_name :: string
  li_url :: "string option"

text \<open>
  The properties of a search result are read as \<open>any\<close>: each of the three fields the
  list component reads may be missing.
\<close>

record Properties =
  p_name :: "string option"
  p_title :: "string option"
  p_url :: "string option"

record SearchResultItem =
  sr_properties :: Properties
  sr_description :: string
  sr_uid :: string

text \<open>
  The body of a response of the list endpoint. The component tells the two envelopes
  apart by the fields that are there, so the body is one record of optional fields:
  \<open>result\<close> of a \<open>SearchResponse\<close>, and \<open>results\<close>, \<open>total_records\<close>, \<open>total_pages\<close> of a
  \<open>PaginatedResponse\<close>.
\<close>

record ResponseData =
  d_result :: "SearchResultItem list option"
  d_results :: "ResourceListItem list option"
  d_total_records :: "int option"
  d_total_pages :: "int option"

datatype param_value = PNum int | PStr string

type_synonym params = "(string \<times> param_value) list"

text \<open>
  The HTTP client (axios) is a parameter: \<open>apiClient_get path params\<close> is \<open>Inr\<close> the body of
  the response or \<open>Inl\<close> the error the promise is rejected with. Each operation returns
  what it wrote to the console and the outcome of its promise.
\<close>

type_synonym ('e, 'a) apiClient = "string \<Rightarrow> params \<Rightarrow> 'e + 'a"

type_synonym ('e, 'a) outcome = "(string \<times> 'e) list \<times> ('e + 'a)"

definition getResources_params :: "int option \<Rightarrow> string option \<Rightarrow> params" where
  "getResources_params page search =
     [(''page'', PNum (case page of None \<Rightarrow> 1 | Some p \<Rightarrow> p))]
     @ (if truthy search then [(''name'', PStr (or_else search []))] else [])"

definition getResources ::
  "('e, 'a) apiClient \<Rightarrow> ResourceType \<Rightarrow> int option \<Rightarrow> string option \<Rightarrow> ('e, 'a) outcome" where
  "getResources apiClient_get type page search =
     (let params = getResources_params page search in
      if truthy search then
        (case apiClient_get (''/'' @ type) params of
           Inr data \<Rightarrow> ([], Inr data)
         | Inl error \<Rightarrow> ([(''Error fetching '' @ type @ '':'', error)], Inl error))
      else
        (case apiClient_get (''/'' @ type) params of
           Inr data \<Rightarrow> ([], Inr data)
         | Inl error \<Rightarrow> ([(''Error fetching '' @ type @ '':'', error)], Inl error)))"

definition getResourceById ::
  "('e, 'a) apiClient \<Rightarrow> ResourceType \<Rightarrow> string \<Rightarrow> ('e, 'a) outcome" where
  "getResourceById apiClient_get type id' =
     (case apiClient_get (''/'' @ type @ ''/'' @ id') [] of
        Inr data \<Rightarrow> ([], Inr data)
      | Inl error \<Rightarrow>
          ([(''Error fetching '' @ type @ '' with ID '' @ id' @ '':'', error)], Inl error))"

definition getResourceByUrl :: "('e, 'a) apiClient \<Rightarrow> string \<Rightarrow> ('e, 'a) outcome" where
  "getResourceByUrl apiClient_get url =
     (let path = replace ''https://swapi.tech/api'' [] url in
      case apiClient_get path [] of
        Inr data \<Rightarrow> ([], Inr data)
      | Inl error \<Rightarrow> ([(''Error fetching resource at '' @ url @ '':'', error)], Inl error))"

section \<open>pages/resources/ResourceList: the list component\<close>

text \<open>\<open>data\<close> is undefined until the query has a result: a \<open>ResponseData option\<close>.\<close>

definition isSearchResponse :: "ResponseData \<Rightarrow> bool" where
  "isSearchResponse data = (d_result data \<noteq> None)"

definition isPaginatedResponse :: "ResponseData \<Rightarrow> bool" where
  "isPaginatedResponse data = (d_results data \<noteq> None)"

definition getItems :: "ResponseData option \<Rightarrow> ResourceListItem list" where
  "getItems data =
     (case data of
        None \<Rightarrow> []
      | Some d \<Rightarrow>
          if isSearchResponse d then
            map (\<lambda>item.
                  let properties = sr_properties item in
                  \<lparr> li_uid = sr_uid item,
                    li_name =
                      or_else (p_name properties) (or_else (p_title properties) ''Unknown''),
                    li_url = p_url properties \<rparr>)
                (case d_result d of None \<Rightarrow> [] | Some r \<Rightarrow> r)
          else if isPaginatedResponse d then
            (case d_results d of None \<Rightarrow> [] | Some r \<Rightarrow> r)
          else [])"

definition getTotalRecords :: "ResponseData option \<Rightarrow> int option" where
  "getTotalRecords data =
     (case data of
        None \<Rightarrow> Some 0
      | Some d \<Rightarrow>
          if isSearchResponse d then
            Some (int (length (case d_result d of None \<Rightarrow> [] | Some r \<Rightarrow> r)))
          else if isPaginatedResponse d then d_total_records d
          else Some 0)"

definition getTotalPages :: "ResponseData option \<Rightarrow> int option" where
  "getTotalPages data =
     (case data of
        None \<Rightarrow> Some 0
      | Some d \<Rightarrow>
          if isSearchResponse d then Some 1
          else if isPaginatedResponse d then d_total_pages d
          else Some 0)"

text \<open>
  The sort state of the name column: \<open>None\<close> is no sort (null), \<open>Some True\<close> ascending,
  \<open>Some False\<close> descending. \<open>handleNameSort\<close> is the state update of one click.
\<close>

definition handleNameSort :: "bool option \<Rightarrow> bool option" where
  "handleNameSort prev =
     (if prev = None then Some True
      else if prev = Some True then Some False
      else None)"

section \<open>pages/resources/ResourceDetail: the detail component\<close>

subsection \<open>The configuration table and its lookup\<close>

record ResourceConfig =
  label :: string
  color :: string

text \<open>
  \<open>resourceConfig\<close> is an object literal with six own keys. \<open>resourceConfig[key]\<close> is an
  ordinary property read: a key that is not an own key is looked up in the prototype of
  the literal, \<open>Object.prototype\<close>, whose members (functions, and for \<open>__proto__\<close> the
  prototype object itself) are all truthy. A key found nowhere reads as undefined.
\<close>

definition resourceConfig :: "(string \<times> ResourceConfig) list" where
  "resourceConfig =
     [(''people'', \<lparr> label = ''People'', color = ''blue'' \<rparr>),
      (''planets'', \<lparr> label = ''Planets'', color = ''teal'' \<rparr>),
      (''films'', \<lparr> label = ''Films'', color = ''violet'' \<rparr>),
      (''species'', \<lparr> label = ''Species'', color = ''grape'' \<rparr>),
      (''vehicles'', \<lparr> label = ''Vehicles'', color = ''orange'' \<rparr>),
      (''starships'', \<lparr> label = ''Starships'', color = ''pink'' \<rparr>)]"

definition Object_prototype :: "string list" where
  "Object_prototype =
     [''constructor'', ''__proto__'', ''hasOwnProperty'', ''isPrototypeOf'',
      ''propertyIsEnumerable'', ''toLocaleString'', ''toString'', ''valueOf'',
      ''__defineGetter__'', ''__defineSetter__'', ''__lookupGetter__'', ''__lookupSetter__'']"

datatype property = Own ResourceConfig | Inherited string

definition get_property :: "string \<Rightarrow> property option" where
  "get_property key =
     (case map_of resourceConfig key of
        Some config \<Rightarrow> Some (Own config)
      | None \<Rightarrow> if key \<in> set Object_prototype then Some (Inherited key) else None)"

text \<open>
  A property key is a string: undefined used as a key is the string \<open>undefined\<close>. The
  condition \<open>resourceConfig[type] ? ... : ...\<close> holds when the property read is not
  undefined, every value it can find being an object or a function.
\<close>

definition property_key :: "string option \<Rightarrow> string" where
  "property_key k = (case k of None \<Rightarrow> ''undefined'' | Some s \<Rightarrow> s)"

definition has_config :: "string option \<Rightarrow> bool" where
  "has_config type = (get_property (property_key type) \<noteq> None)"

subsection \<open>References: the related items\<close>

definition extractIdFromUrl :: "string \<Rightarrow> string option" where
  "extractIdFromUrl url =
     (let parts = split CHR ''/'' url in js_index parts (int (length parts) - 1))"

definition extractTypeFromUrl :: "string \<Rightarrow> ResourceType option" where
  "extractTypeFromUrl url =
     (let parts = split CHR ''/'' url;
          type = js_index parts (int (length parts) - 2)
      in if has_config type then type else None)"

text \<open>
  \<open>RelatedItem\<close> declares a query on \<open>getResourceByUrl(url)\<close> that runs only when
  \<open>enabled\<close>, and renders nothing (null) when the type is falsy.
  \<open>RelatedItem_fetch\<close> is the request the component issues when it is mounted with no
  cached result: \<open>None\<close> when the query is disabled.
\<close>

definition RelatedItem_enabled :: "string \<Rightarrow> bool" where
  "RelatedItem_enabled url = (truthy (Some url) \<and> truthy (extractTypeFromUrl url))"

definition RelatedItem_fetch :: "('e, 'a) apiClient \<Rightarrow> string \<Rightarrow> ('e, 'a) outcome option" where
  "RelatedItem_fetch apiClient_get url =
     (if RelatedItem_enabled url then Some (getResourceByUrl apiClient_get url) else None)"

definition RelatedItem_renders :: "string \<Rightarrow> bool" where
  "RelatedItem_renders url = truthy (extractTypeFromUrl url)"

subsection \<open>The detail view\<close>

text \<open>
  The route parameters \<open>type\<close> and \<open>id\<close> are strings or undefined; \<open>type\<close> defaults to
  \<open>people\<close> when undefined.
\<close>

definition validType :: "string option \<Rightarrow> ResourceType" where
  "validType type' =
     (let type = (case type' of None \<Rightarrow> ''people'' | Some t \<Rightarrow> t)
      in if has_config (Some type) then type else ''people'')"

definition ResourceDetail_fetch ::
  "('e, 'a) apiClient \<Rightarrow> string option \<Rightarrow> string option \<Rightarrow> ('e, 'a) outcome option" where
  "ResourceDetail_fetch apiClient_get type' id' =
     (if truthy id' then Some (getResourceById apiClient_get (validType type') (or_else id' []))
      else None)"

text \<open>
  \<open>getResourceName\<close> reads \<open>title\<close> when the properties have that key, else \<open>name\<close>.
\<close>

definition getResourceName :: "Properties option \<Rightarrow> string" where
  "getResourceName props =
     (case props of
        None \<Rightarrow> ''Unknown''
      | Some p \<Rightarrow>
          (case p_title p of
             Some t \<Rightarrow> t
           | None \<Rightarrow> (case p_name p of Some n \<Rightarrow> n | None \<Rightarrow> ''Unknown'')))"

subsection \<open>Recently viewed\<close>

record RecentlyViewedItem =
  rv_id :: string
  rv_type :: ResourceType
  rv_name :: string
  rv_timestamp :: int

text \<open>
  The state update passed to \<open>setRecentlyViewed\<close>, and the effect that runs it when
  \<open>id\<close> or \<open>validType\<close> changes. \<open>now\<close> is the value of \<open>Date.now()\<close>.
\<close>

definition setRecentlyViewed_update ::
  "string \<Rightarrow> ResourceType \<Rightarrow> string \<Rightarrow> int \<Rightarrow> RecentlyViewedItem list \<Rightarrow> RecentlyViewedItem list" where
  "setRecentlyViewed_update id' type name now prev =
     (let filtered = filter (\<lambda>item. \<not> (rv_id item = id' \<and> rv_type item = type)) prev
      in take 10
           (\<lparr> rv_id = id', rv_type = type, rv_name = name, rv_timestamp = now \<rparr> # filtered))"

definition recordView ::
  "Properties option \<Rightarrow> string option \<Rightarrow> ResourceType \<Rightarrow> int \<Rightarrow>
   RecentlyViewedItem list \<Rightarrow> RecentlyViewedItem list" where
  "recordView properties id' type now prev =
     (case id' of
        None \<Rightarrow> prev
      | Some i \<Rightarrow>
          if i \<noteq> [] then
            (let name = or_else (Some (getResourceName properties)) (type @ '' '' @ i)
             in setRecentlyViewed_update i type name now prev)
          else prev)"

subsection \<open>Favorites\<close>

record FavoriteItem =
  fav_id :: string
  fav_type :: ResourceType
  fav_name :: string
  fav_timestamp :: int

text \<open>
  \<open>item.id === id\<close> compares a string with a string or undefined: it holds when \<open>id\<close> is
  that string.
\<close>

definition isFavorite :: "FavoriteItem list \<Rightarrow> string option \<Rightarrow> ResourceType \<Rightarrow> bool" where
  "isFavorite favorites id' type =
     list_ex (\<lambda>item. Some (fav_id item) = id' \<and> fav_type item = type) favorites"

text \<open>
  \<open>toggleFavorite\<close> is the click handler: \<open>favorites\<close> is the state it was rendered with,
  from which \<open>isFavorite\<close> is computed, and the result is the new state.
\<close>

definition toggleFavorite ::
  "Properties option \<Rightarrow> FavoriteItem list \<Rightarrow> string option \<Rightarrow> ResourceType \<Rightarrow> int \<Rightarrow>
   FavoriteItem list \<Rightarrow> FavoriteItem list" where
  "toggleFavorite properties favorites id' type now prev =
     (if properties = None then prev
      else
        (let name = getResourceName properties in
         if isFavorite favorites id' type then
           filter (\<lambda>item. \<not> (Some (fav_id item) = id' \<and> fav_type item = type)) prev
         else
           prev @
             [\<lparr> fav_id = or_else id' [], fav_type = type, fav_name = name,
                fav_timestamp = now \<rparr>]))"

section \<open>Example data\<close>

definition luke :: SearchResultItem where
  "luke = \<lparr> sr_properties =
              \<lparr> p_name = Some ''Luke Skywalker'', p_title = None,
                p_url = Some ''https://www.swapi.tech/api/people/1'' \<rparr>,
            sr_description = ''A person within the Star Wars universe'', sr_uid = ''1'' \<rparr>"

definition a_new_hope :: SearchResultItem where
  "a_new_hope = \<lparr> sr_properties =
              \<lparr> p_name = None, p_title = Some ''A New Hope'',
                p_url = Some ''https://www.swapi.tech/api/films/1'' \<rparr>,
            sr_description = ''A Star Wars Film'', sr_uid = ''1'' \<rparr>"

definition nameless :: SearchResultItem where
  "nameless = \<lparr> sr_properties = \<lparr> p_name = Some [], p_title = None, p_url = None \<rparr>,
            sr_description = [], sr_uid = ''7'' \<rparr>"

definition search_response :: ResponseData where
  "search_response =
     \<lparr> d_result = Some [luke, a_new_hope, nameless], d_results = None,
       d_total_records = None, d_total_pages = None \<rparr>"

definition people_page_2 :: ResponseData where
  "people_page_2 =
     \<lparr> d_result = None,
       d_results = Some [\<lparr> li_uid = ''11'', li_name = ''Anakin Skywalker'',
                           li_url = Some ''https://www.swapi.tech/api/people/11'' \<rparr>],
       d_total_records = Some 82, d_total_pages = Some 9 \<rparr>"

definition luke_properties :: Properties where
  "luke_properties = sr_properties luke"

definition fav_luke :: FavoriteItem where
  "fav_luke = \<lparr> fav_id = ''1'', fav_type = ''people'', fav_name = ''Luke Skywalker'',
                fav_timestamp = 5 \<rparr>"

definition fav_tatooine :: FavoriteItem where
  "fav_tatooine = \<lparr> fav_id = ''1'', fav_type = ''planets'', fav_name = ''Tatooine'',
                    fav_timestamp = 5 \<rparr>"

definition viewed :: "string \<Rightarrow> RecentlyViewedItem" where
  "viewed n = \<lparr> rv_id = n, rv_type = ''people'', rv_name = ''people '' @ n, rv_timestamp = 0 \<rparr>"

definition ten_viewed :: "RecentlyViewedItem list" where
  "ten_viewed =
     map viewed [''10'', ''9'', ''8'', ''7'', ''6'', ''5'', ''4'', ''3'', ''2'', ''1'']"

section \<open>The list component: normalisation and totals\<close>

lemma or_else_nonempty: "d \<noteq> [] \<Longrightarrow> or_else v d \<noteq> []"
  by (simp add: or_else_def split: option.split)

lemma or_else_truthy: "truthy v \<Longrightarrow> Some (or_else v d) = v"
  by (cases v) (simp_all add: or_else_def truthy_def)

lemma or_else_falsy: "\<not> truthy v \<Longrightarrow> or_else v d = d"
  by (cases v) (simp_all add: or_else_def truthy_def)

text \<open>
  C1. For a search-shaped response, \<open>getItems\<close> returns one item for each element of
  \<open>result\<close>, in order. The name of each item is \<open>properties.name\<close> when that is a
  non-empty string; otherwise \<open>properties.title\<close> when that is a non-empty string;
  otherwise the literal \<open>Unknown\<close> (in particular when both are missing). So no returned
  item has an empty name.
\<close>

theorem getItems_search_displayName:
  assumes "d_result d = Some rs"
  shows "length (getItems (Some d)) = length rs
     \<and> (\<forall>k < length rs.
           li_name (getItems (Some d) ! k) \<noteq> []
         \<and> (truthy (p_name (sr_properties (rs ! k))) \<longrightarrow>
              Some (li_name (getItems (Some d) ! k)) = p_name (sr_properties (rs ! k)))
         \<and> (\<not> truthy (p_name (sr_properties (rs ! k))) \<and> truthy (p_title (sr_properties (rs ! k))) \<longrightarrow>
              Some (li_name (getItems (Some d) ! k)) = p_title (sr_properties (rs ! k)))
         \<and> (\<not> truthy (p_name (sr_properties (rs ! k))) \<and> \<not> truthy (p_title (sr_properties (rs ! k))) \<longrightarrow>
              li_name (getItems (Some d) ! k) = ''Unknown'')
         \<and> (p_name (sr_properties (rs ! k)) = None \<and> p_title (sr_properties (rs ! k)) = None \<longrightarrow>
              li_name (getItems (Some d) ! k) = ''Unknown''))
     \<and> (\<forall>item \<in> set (getItems (Some d)). li_name item \<noteq> [])"
proof -
  have items: "getItems (Some d) =
      map (\<lambda>item. \<lparr> li_uid = sr_uid item,
                     li_name = or_else (p_name (sr_properties item))
                                 (or_else (p_title (sr_properties item)) ''Unknown''),
                     li_url = p_url (sr_properties item) \<rparr>) rs"
    using assms by (simp add: getItems_def isSearchResponse_def Let_def)
  have len: "length (getItems (Some d)) = length rs"
    by (simp add: items)
  have inner: "or_else t ''Unknown'' \<noteq> []" for t
    by (rule or_else_nonempty) simp
  have outer: "or_else v (or_else t ''Unknown'') \<noteq> []" for v t
    using inner by (rule or_else_nonempty)
  have all: "\<forall>item \<in> set (getItems (Some d)). li_name item \<noteq> []"
    using outer by (auto simp add: items)
  have each: "li_name (getItems (Some d) ! k) \<noteq> []
         \<and> (truthy (p_name (sr_properties (rs ! k))) \<longrightarrow>
              Some (li_name (getItems (Some d) ! k)) = p_name (sr_properties (rs ! k)))
         \<and> (\<not> truthy (p_name (sr_properties (rs ! k))) \<and> truthy (p_title (sr_properties (rs ! k))) \<longrightarrow>
              Some (li_name (getItems (Some d) ! k)) = p_title (sr_properties (rs ! k)))
         \<and> (\<not> truthy (p_name (sr_properties (rs ! k))) \<and> \<not> truthy (p_title (sr_properties (rs ! k))) \<longrightarrow>
              li_name (getItems (Some d) ! k) = ''Unknown'')
         \<and> (p_name (sr_properties (rs ! k)) = None \<and> p_title (sr_properties (rs ! k)) = None \<longrightarrow>
              li_name (getItems (Some d) ! k) = ''Unknown'')"
    if k: "k < length rs" for k
  proof -
    let ?p = "sr_properties (rs ! k)"
    have nm: "li_name (getItems (Some d) ! k) =
        or_else (p_name ?p) (or_else (p_title ?p) ''Unknown'')"
      using k by (simp add: items)
    have "li_name (getItems (Some d) ! k) \<noteq> []"
      unfolding nm by (rule outer)
    moreover have "truthy (p_name ?p) \<longrightarrow> Some (li_name (getItems (Some d) ! k)) = p_name ?p"
      unfolding nm by (simp add: or_else_truthy)
    moreover have "\<not> truthy (p_name ?p) \<and> truthy (p_title ?p) \<longrightarrow>
        Some (li_name (getItems (Some d) ! k)) = p_title ?p"
      unfolding nm by (simp add: or_else_truthy or_else_falsy)
    moreover have "\<not> truthy (p_name ?p) \<and> \<not> truthy (p_title ?p) \<longrightarrow>
        li_name (getItems (Some d) ! k) = ''Unknown''"
      unfolding nm by (simp add: or_else_falsy)
    moreover have "p_name ?p = None \<and> p_title ?p = None \<longrightarrow>
        li_name (getItems (Some d) ! k) = ''Unknown''"
      unfolding nm by (simp add: or_else_def)
    ultimately show ?thesis
      by blast
  qed
  from len each all show ?thesis
    by blast
qed

text \<open>
  The three fall-back cases on a response with three results: a person with a name, a
  film with a title only, and an item whose name is the empty string and has no title.
\<close>

theorem getItems_search_displayName_witness:
  "d_result search_response = Some [luke, a_new_hope, nameless]
   \<and> map li_name (getItems (Some search_response)) = [''Luke Skywalker'', ''A New Hope'', ''Unknown'']
   \<and> [] \<notin> li_name ` set (getItems (Some search_response))"
proof -
  have h: "d_result search_response = Some [luke, a_new_hope, nameless]"
    by (simp add: search_response_def)
  have "map li_name (getItems (Some search_response)) =
      [''Luke Skywalker'', ''A New Hope'', ''Unknown'']"
    by (simp add: getItems_def isSearchResponse_def search_response_def luke_def
        a_new_hope_def nameless_def or_else_def)
  moreover from getItems_search_displayName [OF h]
  have "[] \<notin> li_name ` set (getItems (Some search_response))"
    by force
  ultimately show ?thesis
    using h by simp
qed

text \<open>
  C2. A search request (a non-empty search term) whose response is search-shaped: the
  list component shows one page whatever the number of results, and its record count is
  the number of items it displays.
\<close>

theorem search_totals:
  assumes "truthy search"
    and "snd (getResources apiClient_get type page search) = Inr d"
    and "isSearchResponse d"
  shows "getTotalPages (Some d) = Some 1
     \<and> getTotalRecords (Some d) = Some (int (length (getItems (Some d))))"
  using assms(3)
  by (simp add: getTotalPages_def getTotalRecords_def getItems_def isSearchResponse_def)

theorem search_totals_witness:
  "truthy (Some ''Luke'')
   \<and> snd (getResources (\<lambda>path params. (Inr search_response :: string + ResponseData))
            ''people'' (Some 1) (Some ''Luke'')) = Inr search_response
   \<and> isSearchResponse search_response
   \<and> getTotalPages (Some search_response) = Some 1
   \<and> getTotalRecords (Some search_response) = Some 3
   \<and> length (getItems (Some search_response)) = 3"
proof -
  let ?get = "\<lambda>(path :: string) (params :: params). (Inr search_response :: string + ResponseData)"
  have h1: "truthy (Some ''Luke'')"
    by (simp add: truthy_def)
  have h2: "snd (getResources ?get ''people'' (Some 1) (Some ''Luke'')) = Inr search_response"
    by (simp add: getResources_def)
  have h3: "isSearchResponse search_response"
    by (simp add: isSearchResponse_def search_response_def)
  have n: "length (getItems (Some search_response)) = 3"
    by (simp add: getItems_def isSearchResponse_def search_response_def)
  from search_totals [OF h1 h2 h3] n h1 h2 h3 show ?thesis
    by simp
qed

text \<open>
  C7. A list request (no search term) whose response is list-shaped, that is, carries a
  \<open>results\<close> array and no \<open>result\<close> array: the page count and the record count the
  component shows are the \<open>total_pages\<close> and \<open>total_records\<close> fields of the envelope as
  they came, whatever the number of items on the page.
\<close>

theorem paginated_totals:
  assumes "\<not> truthy search"
    and "snd (getResources apiClient_get type page search) = Inr d"
    and "\<not> isSearchResponse d"
    and "isPaginatedResponse d"
  shows "getTotalPages (Some d) = d_total_pages d
     \<and> getTotalRecords (Some d) = d_total_records d"
  using assms(3,4) by (simp add: getTotalPages_def getTotalRecords_def)

theorem paginated_totals_witness:
  "\<not> truthy None
   \<and> snd (getResources (\<lambda>path params. (Inr people_page_2 :: string + ResponseData))
            ''people'' (Some 2) None) = Inr people_page_2
   \<and> \<not> isSearchResponse people_page_2
   \<and> isPaginatedResponse people_page_2
   \<and> getTotalPages (Some people_page_2) = Some 9
   \<and> getTotalRecords (Some people_page_2) = Some 82
   \<and> length (getItems (Some people_page_2)) = 1"
proof -
  let ?get = "\<lambda>(path :: string) (params :: params). (Inr people_page_2 :: string + ResponseData)"
  have h1: "\<not> truthy None"
    by (simp add: truthy_def)
  have h2: "snd (getResources ?get ''people'' (Some 2) None) = Inr people_page_2"
    by (simp add: getResources_def)
  have h3: "\<not> isSearchResponse people_page_2"
    by (simp add: isSearchResponse_def people_page_2_def)
  have h4: "isPaginatedResponse people_page_2"
    by (simp add: isPaginatedResponse_def people_page_2_def)
  have n: "length (getItems (Some people_page_2)) = 1"
    by (simp add: getItems_def isSearchResponse_def isPaginatedResponse_def people_page_2_def)
  have f: "d_total_pages people_page_2 = Some 9" "d_total_records people_page_2 = Some 82"
    by (simp_all add: people_page_2_def)
  from paginated_totals [OF h1 h2 h3 h4] f n h1 h2 h3 h4 show ?thesis
    by simp
qed

section \<open>The sort toggle of the name column\<close>

text \<open>
  C3 as stated, that three clicks lead to the unsorted state from any state, fails from
  the ascending state: three clicks lead back to ascending.
\<close>

theorem handleNameSort_thrice_counterexample:
  "handleNameSort (handleNameSort (handleNameSort (Some True))) \<noteq> None"
  by (simp add: handleNameSort_def)

text \<open>
  C3, amended. One click takes unsorted to ascending, ascending to descending and
  descending to unsorted; so three clicks from the unsorted state lead back to it, and
  from every state three clicks lead back to that same state.
\<close>

theorem handleNameSort_cycle:
  "handleNameSort None = Some True
   \<and> handleNameSort (Some True) = Some False
   \<and> handleNameSort (Some False) = None
   \<and> handleNameSort (handleNameSort (handleNameSort None)) = None
   \<and> handleNameSort (handleNameSort (handleNameSort s)) = s"
proof -
  have "s = None \<or> s = Some True \<or> s = Some False"
    by (cases s) auto
  then show ?thesis
    by (auto simp add: handleNameSort_def)
qed

section \<open>The catalog client: failures\<close>

text \<open>
  C9. When the HTTP call of \<open>getResources\<close>, \<open>getResourceById\<close> or \<open>getResourceByUrl\<close>
  fails, the promise of the operation is rejected with that same error: the outcome is
  never a normal result, whatever default one may think of.
\<close>

theorem client_rethrows:
  "(apiClient_get (''/'' @ type) (getResources_params page search) = Inl e \<longrightarrow>
      snd (getResources apiClient_get type page search) = Inl e
      \<and> (\<forall>r. snd (getResources apiClient_get type page search) \<noteq> Inr r))
   \<and> (apiClient_get (''/'' @ type @ ''/'' @ id') [] = Inl e \<longrightarrow>
      snd (getResourceById apiClient_get type id') = Inl e
      \<and> (\<forall>r. snd (getResourceById apiClient_get type id') \<noteq> Inr r))
   \<and> (apiClient_get (replace ''https://swapi.tech/api'' [] url) [] = Inl e \<longrightarrow>
      snd (getResourceByUrl apiClient_get url) = Inl e
      \<and> (\<forall>r. snd (getResourceByUrl apiClient_get url) \<noteq> Inr r))"
  by (simp add: getResources_def getResourceById_def getResourceByUrl_def)

text \<open>
  A client whose every request fails with a network error: a list request, a detail
  request and a request by URL (whose path is the URL without the base) all fail with it.
\<close>

theorem client_rethrows_witness:
  "(\<lambda>path params. (Inl ''Network Error'' :: string + ResponseData))
      (''/'' @ ''people'') (getResources_params (Some 2) None) = Inl ''Network Error''
   \<and> snd (getResources (\<lambda>path params. (Inl ''Network Error'' :: string + ResponseData))
        ''people'' (Some 2) None) = Inl ''Network Error''
   \<and> snd (getResourceById (\<lambda>path params. (Inl ''Network Error'' :: string + ResponseData))
        ''people'' ''1'') = Inl ''Network Error''
   \<and> replace ''https://swapi.tech/api'' [] ''https://swapi.tech/api/people/1'' = ''/people/1''
   \<and> snd (getResourceByUrl (\<lambda>path params. (Inl ''Network Error'' :: string + ResponseData))
        ''https://swapi.tech/api/people/1'') = Inl ''Network Error''"
  using client_rethrows [of "\<lambda>path params. (Inl ''Network Error'' :: string + ResponseData)"
      "''people''" "Some 2" None "''Network Error''" "''1''" "''https://swapi.tech/api/people/1''"]
  by simp

section \<open>Recently viewed\<close>

text \<open>
  C5. With an id in the route, recording a view removes the entries of the same
  \<open>(type, id)\<close>, puts a new entry with the current timestamp in front and keeps the first
  ten entries. So the new entry is the first of the list, the list has at most ten
  entries, exactly one of them has that key, and the others are the first nine of the
  other entries of the old list, in their order.
\<close>

theorem recordView_front_capped:
  assumes "id' = Some i" and "i \<noteq> []"
  shows "recordView properties id' type now prev =
       take 10 (\<lparr> rv_id = i, rv_type = type,
                  rv_name = or_else (Some (getResourceName properties)) (type @ '' '' @ i),
                  rv_timestamp = now \<rparr>
                # filter (\<lambda>item. \<not> (rv_id item = i \<and> rv_type item = type)) prev)
     \<and> recordView properties id' type now prev \<noteq> []
     \<and> hd (recordView properties id' type now prev) =
         \<lparr> rv_id = i, rv_type = type,
           rv_name = or_else (Some (getResourceName properties)) (type @ '' '' @ i),
           rv_timestamp = now \<rparr>
     \<and> length (recordView properties id' type now prev) \<le> 10
     \<and> length (filter (\<lambda>item. rv_id item = i \<and> rv_type item = type)
                 (recordView properties id' type now prev)) = 1
     \<and> filter (\<lambda>item. \<not> (rv_id item = i \<and> rv_type item = type))
           (recordView properties id' type now prev) =
         take 9 (filter (\<lambda>item. \<not> (rv_id item = i \<and> rv_type item = type)) prev)"
proof -
  let ?new = "\<lparr> rv_id = i, rv_type = type,
           rv_name = or_else (Some (getResourceName properties)) (type @ '' '' @ i),
           rv_timestamp = now \<rparr>"
  let ?key = "\<lambda>item. rv_id item = i \<and> rv_type item = type"
  let ?rest = "filter (\<lambda>item. \<not> ?key item) prev"
  have r: "recordView properties id' type now prev = ?new # take 9 ?rest"
    using assms by (simp add: recordView_def setRecentlyViewed_update_def Let_def take_Cons')
  have nokey: "filter ?key (take 9 ?rest) = []"
    by (auto simp add: filter_empty_conv dest: in_set_takeD)
  have keep: "filter (\<lambda>item. \<not> ?key item) (take 9 ?rest) = take 9 ?rest"
    by (auto simp add: filter_id_conv dest: in_set_takeD)
  show ?thesis
    unfolding r using nokey keep by (simp add: take_Cons')
qed

text \<open>
  A full list of ten people whose last entry is person 1: viewing person 1 again moves
  it to the front under its name and timestamp, and the list still has ten entries.
\<close>

theorem recordView_front_capped_witness:
  "Some ''1'' = Some ''1'' \<and> ''1'' \<noteq> []
   \<and> length ten_viewed = 10
   \<and> recordView (Some luke_properties) (Some ''1'') ''people'' 99 ten_viewed =
       \<lparr> rv_id = ''1'', rv_type = ''people'', rv_name = ''Luke Skywalker'', rv_timestamp = 99 \<rparr>
       # map viewed [''10'', ''9'', ''8'', ''7'', ''6'', ''5'', ''4'', ''3'', ''2'']
   \<and> length (recordView (Some luke_properties) (Some ''1'') ''people'' 99 ten_viewed) \<le> 10"
proof -
  have h1: "Some ''1'' = Some ''1''" and h2: "''1'' \<noteq> []"
    by simp_all
  have e: "recordView (Some luke_properties) (Some ''1'') ''people'' 99 ten_viewed =
       \<lparr> rv_id = ''1'', rv_type = ''people'', rv_name = ''Luke Skywalker'', rv_timestamp = 99 \<rparr>
       # map viewed [''10'', ''9'', ''8'', ''7'', ''6'', ''5'', ''4'', ''3'', ''2'']"
    by (simp add: recordView_def setRecentlyViewed_update_def ten_viewed_def viewed_def
        getResourceName_def luke_properties_def luke_def or_else_def)
  have n: "length ten_viewed = 10"
    by (simp add: ten_viewed_def)
  from recordView_front_capped [OF h1 h2, of "Some luke_properties" "''people''" 99 ten_viewed]
  have "length (recordView (Some luke_properties) (Some ''1'') ''people'' 99 ten_viewed) \<le> 10"
    by blast
  with e n show ?thesis
    by simp
qed

section \<open>Favorites\<close>

lemma isFavorite_filter:
  "\<not> isFavorite
       (filter (\<lambda>item. \<not> (Some (fav_id item) = id' \<and> fav_type item = type)) favs) id' type"
  by (auto simp add: isFavorite_def list_ex_iff)

lemma not_isFavorite_filter:
  "\<not> isFavorite favs id' type \<Longrightarrow>
     filter (\<lambda>item. \<not> (Some (fav_id item) = id' \<and> fav_type item = type)) favs = favs"
  by (auto simp add: isFavorite_def list_ex_iff filter_id_conv)

text \<open>
  C4 as stated fails in its last part when the key is in the list: Luke is a favorite,
  listed before Tatooine; two clicks on Luke's page, with the same name and even the same
  timestamp as the stored entry, leave Luke after Tatooine.
\<close>

theorem toggleFavorite_twice_counterexample:
  "toggleFavorite (Some luke_properties)
       (toggleFavorite (Some luke_properties) [fav_luke, fav_tatooine] (Some ''1'') ''people'' 5
          [fav_luke, fav_tatooine])
       (Some ''1'') ''people'' 5
       (toggleFavorite (Some luke_properties) [fav_luke, fav_tatooine] (Some ''1'') ''people'' 5
          [fav_luke, fav_tatooine])
     \<noteq> [fav_luke, fav_tatooine]"
  by (simp add: toggleFavorite_def isFavorite_def getResourceName_def luke_properties_def
      luke_def fav_luke_def fav_tatooine_def or_else_def)

text \<open>
  C4, amended. With the properties of the resource loaded and the handler run on the
  state it was rendered with: when an entry of the same \<open>(type, id)\<close> is in the list, the
  toggle removes the entries of that key, and a second toggle appends a new entry after
  the others; when none is, the toggle appends a new entry with the name of the resource
  and the current timestamp, and a second toggle gives back the original list.
\<close>

theorem toggleFavorite_toggles:
  assumes "properties = Some p"
  shows "(isFavorite favorites (Some i) type \<longrightarrow>
        toggleFavorite properties favorites (Some i) type now favorites =
          filter (\<lambda>item. \<not> (fav_id item = i \<and> fav_type item = type)) favorites
      \<and> \<not> isFavorite (toggleFavorite properties favorites (Some i) type now favorites)
            (Some i) type
      \<and> toggleFavorite properties
          (toggleFavorite properties favorites (Some i) type now favorites) (Some i) type now'
          (toggleFavorite properties favorites (Some i) type now favorites) =
          filter (\<lambda>item. \<not> (fav_id item = i \<and> fav_type item = type)) favorites
          @ [\<lparr> fav_id = i, fav_type = type, fav_name = getResourceName properties,
               fav_timestamp = now' \<rparr>])
   \<and> (\<not> isFavorite favorites (Some i) type \<longrightarrow>
        toggleFavorite properties favorites (Some i) type now favorites =
          favorites @ [\<lparr> fav_id = i, fav_type = type, fav_name = getResourceName properties,
                          fav_timestamp = now \<rparr>]
      \<and> isFavorite (toggleFavorite properties favorites (Some i) type now favorites)
          (Some i) type
      \<and> toggleFavorite properties
          (toggleFavorite properties favorites (Some i) type now favorites) (Some i) type now'
          (toggleFavorite properties favorites (Some i) type now favorites) = favorites)"
proof -
  let ?new = "\<lambda>t. \<lparr> fav_id = i, fav_type = type, fav_name = getResourceName properties,
                          fav_timestamp = t \<rparr>"
  let ?other = "\<lambda>item. \<not> (Some (fav_id item) = Some i \<and> fav_type item = type)"
  have oe: "or_else (Some i) [] = i"
    by (simp add: or_else_def)
  have rem: "toggleFavorite properties favorites (Some i) type now favorites =
      filter ?other favorites" if "isFavorite favorites (Some i) type"
    using assms that by (simp add: toggleFavorite_def)
  have add: "toggleFavorite properties favs (Some i) type t favs = favs @ [?new t]"
    if "\<not> isFavorite favs (Some i) type" for favs t
    using assms that by (simp add: toggleFavorite_def oe)
  have gone: "\<not> isFavorite (filter ?other favorites) (Some i) type"
    by (rule isFavorite_filter)
  have isf: "isFavorite (favorites @ [?new now]) (Some i) type"
    by (simp add: isFavorite_def)
  have twice: "toggleFavorite properties (favorites @ [?new now]) (Some i) type now'
      (favorites @ [?new now]) = favorites" if "\<not> isFavorite favorites (Some i) type"
    using assms isf not_isFavorite_filter [OF that] by (simp add: toggleFavorite_def)
  show ?thesis
  proof (cases "isFavorite favorites (Some i) type")
    case True
    with rem gone add [OF gone, of now'] show ?thesis
      by simp
  next
    case False
    with add [OF False, of now] isf twice show ?thesis
      by simp
  qed
qed

text \<open>
  Tatooine alone is a favorite: two clicks on Luke's page add Luke and remove him again.
  Luke and Tatooine are favorites: one click on Luke's page leaves Tatooine.
\<close>

theorem toggleFavorite_toggles_witness:
  "Some luke_properties = Some luke_properties
   \<and> \<not> isFavorite [fav_tatooine] (Some ''1'') ''people''
   \<and> toggleFavorite (Some luke_properties) [fav_tatooine] (Some ''1'') ''people'' 5 [fav_tatooine]
       = [fav_tatooine, fav_luke]
   \<and> toggleFavorite (Some luke_properties) [fav_tatooine, fav_luke] (Some ''1'') ''people'' 6
       [fav_tatooine, fav_luke] = [fav_tatooine]
   \<and> isFavorite [fav_luke, fav_tatooine] (Some ''1'') ''people''
   \<and> toggleFavorite (Some luke_properties) [fav_luke, fav_tatooine] (Some ''1'') ''people'' 6
       [fav_luke, fav_tatooine] = [fav_tatooine]"
proof -
  have h: "Some luke_properties = Some luke_properties"
    by simp
  have n: "\<not> isFavorite [fav_tatooine] (Some ''1'') ''people''"
    by (simp add: isFavorite_def fav_tatooine_def)
  have y: "isFavorite [fav_luke, fav_tatooine] (Some ''1'') ''people''"
    by (simp add: isFavorite_def fav_luke_def)
  have nm: "getResourceName (Some luke_properties) = ''Luke Skywalker''"
    by (simp add: getResourceName_def luke_properties_def luke_def)
  have f: "filter (\<lambda>item. \<not> (fav_id item = ''1'' \<and> fav_type item = ''people''))
      [fav_luke, fav_tatooine] = [fav_tatooine]"
    by (simp add: fav_luke_def fav_tatooine_def)
  have l: "[fav_tatooine] @ [\<lparr> fav_id = ''1'', fav_type = ''people'',
      fav_name = getResourceName (Some luke_properties), fav_timestamp = 5 \<rparr>] =
      [fav_tatooine, fav_luke]"
    by (simp add: nm fav_luke_def)
  from toggleFavorite_toggles [OF h, of "[fav_tatooine]" "''1''" "''people''" 5 6] n
  have t1: "toggleFavorite (Some luke_properties) [fav_tatooine] (Some ''1'') ''people'' 5
        [fav_tatooine] = [fav_tatooine] @ [\<lparr> fav_id = ''1'', fav_type = ''people'',
          fav_name = getResourceName (Some luke_properties), fav_timestamp = 5 \<rparr>]"
    and t2: "toggleFavorite (Some luke_properties)
        (toggleFavorite (Some luke_properties) [fav_tatooine] (Some ''1'') ''people'' 5
           [fav_tatooine]) (Some ''1'') ''people'' 6
        (toggleFavorite (Some luke_properties) [fav_tatooine] (Some ''1'') ''people'' 5
           [fav_tatooine]) = [fav_tatooine]"
    by blast+
  have a: "toggleFavorite (Some luke_properties) [fav_tatooine] (Some ''1'') ''people'' 5
        [fav_tatooine] = [fav_tatooine, fav_luke]
      \<and> toggleFavorite (Some luke_properties) [fav_tatooine, fav_luke] (Some ''1'') ''people'' 6
        [fav_tatooine, fav_luke] = [fav_tatooine]"
    using t1 t2 unfolding l by simp
  from toggleFavorite_toggles [OF h, of "[fav_luke, fav_tatooine]" "''1''" "''people''" 6 7] y f
  have b: "toggleFavorite (Some luke_properties) [fav_luke, fav_tatooine] (Some ''1'') ''people'' 6
       [fav_luke, fav_tatooine] = [fav_tatooine]"
    by simp
  from h n y a b show ?thesis
    by simp
qed

section \<open>Resource types that are not in the table\<close>

text \<open>
  The lookup in the configuration table finds the six resource types, and nothing for a
  key that is neither one of them nor a member of the prototype.
\<close>

lemma get_property_own:
  "key \<in> fst ` set resourceConfig \<Longrightarrow> get_property key \<noteq> None"
  by (auto simp add: get_property_def map_of_eq_None_iff split: option.split)

lemma get_property_unknown:
  "key \<notin> fst ` set resourceConfig \<Longrightarrow> key \<notin> set Object_prototype \<Longrightarrow> get_property key = None"
  by (simp add: get_property_def map_of_eq_None_iff split: option.split)

lemma resource_types:
  "fst ` set resourceConfig =
     {''people'', ''planets'', ''films'', ''species'', ''vehicles'', ''starships''}"
  by (simp add: resourceConfig_def)

lemma extractTypeFromUrl_unknown:
  assumes "property_key (js_index (split CHR ''/'' url) (int (length (split CHR ''/'' url)) - 2))
             \<notin> fst ` set resourceConfig \<union> set Object_prototype"
  shows "extractTypeFromUrl url = None \<and> \<not> RelatedItem_renders url
     \<and> RelatedItem_fetch apiClient_get url = None"
proof -
  have "extractTypeFromUrl url = None"
    using assms by (simp add: extractTypeFromUrl_def has_config_def Let_def get_property_unknown)
  then show ?thesis
    by (simp add: RelatedItem_renders_def RelatedItem_fetch_def RelatedItem_enabled_def truthy_def)
qed

lemma validType_own: "t \<in> fst ` set resourceConfig \<Longrightarrow> validType (Some t) = t"
  using get_property_own [of t] by (simp add: validType_def has_config_def property_key_def)

lemma validType_unknown:
  "t \<notin> fst ` set resourceConfig \<Longrightarrow> t \<notin> set Object_prototype \<Longrightarrow>
     validType (Some t) = ''people''"
  by (simp add: validType_def has_config_def property_key_def get_property_unknown)

text \<open>
  C6. A reference whose type segment is \<open>constructor\<close>, which is not one of the six
  resource types: the table lookup finds the member of that name in the prototype, so
  \<open>extractTypeFromUrl\<close> returns the segment instead of null, the item is rendered, and its
  query is enabled and requests the reference.
\<close>

theorem extractTypeFromUrl_constructor:
  "''constructor'' \<notin> fst ` set resourceConfig
   \<and> extractTypeFromUrl ''https://swapi.tech/api/constructor/1'' = Some ''constructor''
   \<and> RelatedItem_renders ''https://swapi.tech/api/constructor/1''
   \<and> RelatedItem_fetch (\<lambda>path params. (Inr path :: string + string))
        ''https://swapi.tech/api/constructor/1'' = Some ([], Inr ''/constructor/1'')"
proof -
  have t: "extractTypeFromUrl ''https://swapi.tech/api/constructor/1'' = Some ''constructor''"
    by (simp add: extractTypeFromUrl_def js_index_def has_config_def property_key_def
        get_property_def resourceConfig_def Object_prototype_def)
  have p: "replace ''https://swapi.tech/api'' [] ''https://swapi.tech/api/constructor/1'' =
      ''/constructor/1''"
    by simp
  show ?thesis
    by (simp add: t p resourceConfig_def RelatedItem_renders_def RelatedItem_fetch_def
        RelatedItem_enabled_def truthy_def getResourceByUrl_def)
qed

text \<open>
  C10. The detail route \<open>/resources/constructor/1\<close>, whose type is not one of the six
  resource types: the same lookup makes \<open>validType\<close> keep the type instead of falling back
  to \<open>people\<close>, and the detail view requests \<open>/constructor/1\<close>.
\<close>

theorem validType_constructor:
  "''constructor'' \<notin> fst ` set resourceConfig
   \<and> validType (Some ''constructor'') = ''constructor''
   \<and> ResourceDetail_fetch (\<lambda>path params. (Inr path :: string + string))
        (Some ''constructor'') (Some ''1'') = Some ([], Inr ''/constructor/1'')"
proof -
  have v: "validType (Some ''constructor'') = ''constructor''"
    by (simp add: validType_def has_config_def property_key_def get_property_def
        resourceConfig_def Object_prototype_def)
  show ?thesis
    by (simp add: v resourceConfig_def ResourceDetail_fetch_def truthy_def or_else_def
        getResourceById_def)
qed

end
